theory Spec2Isabelle
  imports Complex_Main
begin

section \<open>Python values and exceptions\<close>

text \<open>
  The exceptions that the code of \<^verbatim>\<open>communicator.py\<close> raises itself carry their
  message; the ones raised by the interpreter (a call with the wrong number of
  arguments, a missing attribute, an index out of range) carry none.
  \<open>CommunicationError\<close> stands for whatever a transport backend raises.
\<close>

datatype error =
    TypeError
  | AttributeError
  | IndexError
  | AssertionError string
  | RuntimeError string
  | ValueError string
  | CommunicationError string

text \<open>
  The values that travel through the wrapper. A tensor is its shape and its flattened
  contents; a generator is an opaque handle.
\<close>

datatype pyval =
    VNone
  | VBool bool
  | VInt int
  | VStr string
  | VTensor "nat list" "int list"
  | VList "pyval list"
  | VGenerator nat

type_synonym kwargs = "string \<rightharpoonup> pyval"

text \<open>\<^verbatim>\<open>x.nelement()\<close>: only tensors have the method.\<close>

fun nelement :: "pyval \<Rightarrow> error + int" where
  "nelement (VTensor sh d) = Inr (int (prod_list sh))"
| "nelement v = Inl AttributeError"

text \<open>\<^verbatim>\<open>x[0]\<close>\<close>

fun getitem0 :: "pyval \<Rightarrow> error + pyval" where
  "getitem0 (VList []) = Inl IndexError"
| "getitem0 (VList (y # ys)) = Inr y"
| "getitem0 (VStr []) = Inl IndexError"
| "getitem0 (VStr (c # cs)) = Inr (VStr [c])"
| "getitem0 (VTensor [] d) = Inl IndexError"
| "getitem0 (VTensor (n # sh) d) =
     (if n = 0 then Inl IndexError else Inr (VTensor sh (take (prod_list sh) d)))"
| "getitem0 v = Inl TypeError"

text \<open>\<^verbatim>\<open>len(x)\<close>\<close>

fun py_len :: "pyval \<Rightarrow> error + int" where
  "py_len (VList xs) = Inr (int (length xs))"
| "py_len (VStr s) = Inr (int (length s))"
| "py_len (VTensor [] d) = Inl TypeError"
| "py_len (VTensor (n # sh) d) = Inr (int n)"
| "py_len v = Inl TypeError"

text \<open>\<^verbatim>\<open>for x in v\<close>: the items a value yields when iterated.\<close>

fun py_iter :: "pyval \<Rightarrow> error + pyval list" where
  "py_iter (VList xs) = Inr xs"
| "py_iter (VStr s) = Inr (map (\<lambda>c. VStr [c]) s)"
| "py_iter (VTensor [] d) = Inl TypeError"
| "py_iter (VTensor (n # sh) d) =
     Inr (map (\<lambda>i. VTensor sh (take (prod_list sh) (drop (i * prod_list sh) d))) [0..<n])"
| "py_iter v = Inl TypeError"

text \<open>Truth value of an object in a condition.\<close>

fun py_truth :: "pyval \<Rightarrow> error + bool" where
  "py_truth VNone = Inr False"
| "py_truth (VBool b) = Inr b"
| "py_truth (VInt i) = Inr (i \<noteq> 0)"
| "py_truth (VStr s) = Inr (s \<noteq> [])"
| "py_truth (VList xs) = Inr (xs \<noteq> [])"
| "py_truth (VTensor sh d) =
     (if prod_list sh = 1 then Inr (list_ex (\<lambda>x. x \<noteq> 0) (take 1 d))
      else Inl (RuntimeError ''Boolean value of Tensor is ambiguous''))"
| "py_truth (VGenerator g) = Inr True"

text \<open>\<^verbatim>\<open>args[0]\<close> on the tuple of positional arguments.\<close>

fun arg0 :: "pyval list \<Rightarrow> error + pyval" where
  "arg0 [] = Inl IndexError"
| "arg0 (a # as) = Inr a"

text \<open>Sequencing of computations that may raise.\<close>

fun and_then :: "error + 'a \<Rightarrow> ('a \<Rightarrow> error + 'c) \<Rightarrow> error + 'c" where
  "and_then (Inl e) f = Inl e"
| "and_then (Inr x) f = f x"

text \<open>\<^verbatim>\<open>sum(x.nelement() for x in xs)\<close>\<close>

fun sum_nelement :: "pyval list \<Rightarrow> error + int" where
  "sum_nelement [] = Inr 0"
| "sum_nelement (x # xs) =
     and_then (nelement x) (\<lambda>n. and_then (sum_nelement xs) (\<lambda>m. Inr (n + m)))"

text \<open>Decimal rendering of an integer, as an f-string does it.\<close>

fun str_nat :: "nat \<Rightarrow> string" where
  "str_nat n =
     (if n < 10 then [''0123456789'' ! n]
      else str_nat (n div 10) @ [''0123456789'' ! (n mod 10)])"

declare str_nat.simps [simp del]

definition str_int :: "int \<Rightarrow> string" where
  "str_int i = (if i < 0 then ''-'' @ str_nat (nat (- i)) else str_nat (nat i))"


section \<open>The class-level verbosity flag\<close>

text \<open>
  \<^verbatim>\<open>__verbosity\<close> is an attribute of the class \<^verbatim>\<open>Communicator\<close> (mangled to
  \<^verbatim>\<open>_Communicator__verbosity\<close>), read and written by two class methods through
  \<^verbatim>\<open>cls\<close>. \<^verbatim>\<open>Communicator\<close> is abstract, so \<^verbatim>\<open>cls\<close> is in general a subclass.
  A class is represented by the names of the classes on its method resolution order
  that lie strictly below \<^verbatim>\<open>Communicator\<close>, most derived first; \<open>[]\<close> is
  \<^verbatim>\<open>Communicator\<close> itself. The state holds the entry of \<^verbatim>\<open>Communicator\<close>'s own
  dictionary, which the class body creates, and the entries of the subclasses'
  dictionaries, which exist only once written.

  The \<^verbatim>\<open>assert\<close> is modelled as executed (the interpreter not run with \<^verbatim>\<open>-O\<close>).
\<close>

type_synonym cls = "string list"

record class_state =
  base_verbosity :: bool
  sub_verbosity :: "string \<rightharpoonup> bool"

definition initial_classes :: class_state where
  "initial_classes = \<lparr>base_verbosity = False, sub_verbosity = Map.empty\<rparr>"

text \<open>\<^verbatim>\<open>return cls.__verbosity\<close>: attribute lookup along the resolution order.\<close>

fun is_verbose :: "cls \<Rightarrow> class_state \<Rightarrow> bool" where
  "is_verbose [] K = base_verbosity K"
| "is_verbose (c # cs) K =
     (case sub_verbosity K c of Some b \<Rightarrow> b | None \<Rightarrow> is_verbose cs K)"

text \<open>
  \<^verbatim>\<open>cls.__verbosity = verbosity\<close>: the assignment writes the dictionary of \<^verbatim>\<open>cls\<close>.
  The result is the outcome of the call and the state of the classes after it.
\<close>

fun set_verbosity :: "cls \<Rightarrow> pyval \<Rightarrow> class_state \<Rightarrow> (error + unit) \<times> class_state" where
  "set_verbosity [] (VBool b) K = (Inr (), K\<lparr>base_verbosity := b\<rparr>)"
| "set_verbosity (c # cs) (VBool b) K =
     (Inr (), K\<lparr>sub_verbosity := (sub_verbosity K)(c \<mapsto> b)\<rparr>)"
| "set_verbosity k v K = (Inl (AssertionError ''Verbosity must be a boolean value''), K)"


section \<open>The communicator instance\<close>

text \<open>
  An instance after its constructor has run: the three counters exist (concrete
  communicators call \<^verbatim>\<open>reset_communication_stats\<close> when they are built).
  \<^verbatim>\<open>get_world_size\<close> and \<^verbatim>\<open>BYTES_PER_ELEMENT\<close> are supplied by the concrete
  communicator and are fields here. \<open>attrs\<close> holds the remaining instance attributes,
  among them the generators. \<open>backend\<close> is the state of the transport, the only part
  of the instance that a backend operation reads and writes. Time is a real number.
\<close>

record 'b communicator =
  cls_of :: cls
  world_size :: int
  BYTES_PER_ELEMENT :: int
  comm_rounds :: int
  comm_bytes :: int
  comm_time :: real
  attrs :: "string \<rightharpoonup> pyval"
  backend :: 'b

definition reset_communication_stats :: "'b communicator \<Rightarrow> 'b communicator" where
  "reset_communication_stats self = self\<lparr>comm_rounds := 0, comm_bytes := 0, comm_time := 0\<rparr>"

definition log_communication :: "int \<Rightarrow> 'b communicator \<Rightarrow> 'b communicator" where
  "log_communication n self =
     self\<lparr>comm_rounds := comm_rounds self + 1,
          comm_bytes := comm_bytes self + n * BYTES_PER_ELEMENT self\<rparr>"

text \<open>
  A call \<^verbatim>\<open>self._log_communication(...)\<close> with the given positional arguments: the
  method is declared with the single parameter \<^verbatim>\<open>nelement\<close>, and a call with any other
  number of arguments raises before the body runs.
\<close>

fun call_log_communication :: "int list \<Rightarrow> 'b communicator \<Rightarrow> error + 'b communicator" where
  "call_log_communication [n] self = Inr (log_communication n self)"
| "call_log_communication ns self = Inl TypeError"

definition log_communication_time :: "real \<Rightarrow> 'b communicator \<Rightarrow> 'b communicator" where
  "log_communication_time t self = self\<lparr>comm_time := comm_time self + t\<rparr>"


section \<open>Generators\<close>

datatype device = Device (device_type: string) (device_index: "int option")

text \<open>
  \<^verbatim>\<open>torch.device\<close> belongs to the tensor library: \<open>torch_device\<close> is a parameter that
  resolves a device argument or raises. \<^verbatim>\<open>torch.device("cpu")\<close> is the CPU device.
  The index of the generator is an integer.
\<close>

definition resolve_device :: "('d \<Rightarrow> error + device) \<Rightarrow> 'd option \<Rightarrow> error + device" where
  "resolve_device torch_device dev =
     (case dev of None \<Rightarrow> Inr (Device ''cpu'' None) | Some d \<Rightarrow> torch_device d)"

definition generator_name :: "int \<Rightarrow> device \<Rightarrow> string" where
  "generator_name idx device =
     (if device_type device = ''cuda'' then ''g'' @ str_int idx @ ''_cuda''
      else ''g'' @ str_int idx)"

text \<open>\<^verbatim>\<open>getattr(self, name, None)\<close>\<close>

definition getattr_or_None :: "'b communicator \<Rightarrow> string \<Rightarrow> pyval" where
  "getattr_or_None self name = (case attrs self name of None \<Rightarrow> VNone | Some v \<Rightarrow> v)"

definition get_generator ::
  "('d \<Rightarrow> error + device) \<Rightarrow> 'b communicator \<Rightarrow> int \<Rightarrow> 'd option \<Rightarrow> error + pyval" where
  "get_generator torch_device self idx dev =
     and_then (resolve_device torch_device dev)
       (\<lambda>device.
          if idx \<notin> {0, 1}
          then Inl (RuntimeError (''Generator idx '' @ str_int idx @ '' out of bounds.''))
          else
            let generator = getattr_or_None self (generator_name idx device)
            in if generator = VNone
               then Inl (ValueError (''Generator '' @ generator_name idx device
                           @ '' is not initialized, call curl.init() first''))
               else Inr generator)"


section \<open>The logging decorator\<close>

text \<open>
  The decorated function: its \<^verbatim>\<open>__name__\<close> and its body, which runs on the
  transport's state and returns a result or raises.
\<close>

record 'b func =
  func_name :: string
  func_body :: "pyval list \<Rightarrow> kwargs \<Rightarrow> 'b \<Rightarrow> (error + pyval) \<times> 'b"

text \<open>\<^verbatim>\<open>"batched" in kwargs and kwargs["batched"]\<close>, as a condition.\<close>

definition batched :: "kwargs \<Rightarrow> error + bool" where
  "batched kw = (case kw ''batched'' of None \<Rightarrow> Inr False | Some v \<Rightarrow> py_truth v)"

text \<open>
  The statistics branch of the wrapper (the \<^verbatim>\<open>if\<close>/\<^verbatim>\<open>elif\<close> chain under
  \<^verbatim>\<open>if self.is_verbose()\<close>). The arguments of each call of \<^verbatim>\<open>_log_communication\<close>
  are evaluated before the call, so an exception leaves the counters as they were.
\<close>

definition log_stats :: "string \<Rightarrow> pyval list \<Rightarrow> kwargs \<Rightarrow> 'b communicator \<Rightarrow> error + 'b communicator" where
  "log_stats name args kw self =
     (if name = ''barrier'' then call_log_communication [0, 1] self
      else if name = ''scatter'' then
        and_then (arg0 args) (\<lambda>a.
        and_then (getitem0 a) (\<lambda>x.
        and_then (nelement x) (\<lambda>n.
        and_then (py_len a) (\<lambda>l.
          call_log_communication [n * (l - 1)] self))))
      else
        and_then (batched kw) (\<lambda>b.
          if b then
            and_then (arg0 args) (\<lambda>a.
            and_then (py_iter a) (\<lambda>xs.
            and_then (sum_nelement xs) (\<lambda>nbytes.
              call_log_communication [nbytes] self)))
          else
            and_then (arg0 args) (\<lambda>a.
            and_then (nelement a) (\<lambda>n.
              call_log_communication [n] self))))"

text \<open>
  The part of \<^verbatim>\<open>logging_wrapper\<close> after the single-party shortcut. \<open>K\<close> is the
  state of the classes (for \<^verbatim>\<open>is_verbose\<close>), \<open>tic\<close> and \<open>toc\<close> are the two
  readings of \<^verbatim>\<open>timeit.default_timer()\<close>. The result is what the caller gets, a
  value or an exception, together with the instance as the call leaves it.
\<close>

definition logged_call ::
  "'b func \<Rightarrow> class_state \<Rightarrow> real \<Rightarrow> real \<Rightarrow> pyval list \<Rightarrow> kwargs \<Rightarrow> 'b communicator
     \<Rightarrow> (error + pyval) \<times> 'b communicator" where
  "logged_call func K tic toc args kw self =
     (if is_verbose (cls_of self) K then
        (case log_stats (func_name func) args kw self of
           Inl e \<Rightarrow> (Inl e, self)
         | Inr self1 \<Rightarrow>
             (case func_body func args kw (backend self1) of
                (Inl e, b) \<Rightarrow> (Inl e, self1\<lparr>backend := b\<rparr>)
              | (Inr result, b) \<Rightarrow>
                  (Inr result, log_communication_time (toc - tic) (self1\<lparr>backend := b\<rparr>))))
      else
        (case func_body func args kw (backend self) of
           (r, b) \<Rightarrow> (r, self\<lparr>backend := b\<rparr>)))"

text \<open>\<^verbatim>\<open>logging_wrapper\<close>, the function that \<^verbatim>\<open>_logging(func)\<close> returns.\<close>

definition logging_wrapper ::
  "'b func \<Rightarrow> class_state \<Rightarrow> real \<Rightarrow> real \<Rightarrow> pyval list \<Rightarrow> kwargs \<Rightarrow> 'b communicator
     \<Rightarrow> (error + pyval) \<times> 'b communicator" where
  "logging_wrapper func K tic toc args kw self =
     (if world_size self < 2 then
        (if func_name func \<in> {''gather'', ''all_gather''} then
           (case arg0 args of Inl e \<Rightarrow> (Inl e, self) | Inr a \<Rightarrow> (Inr (VList [a]), self))
         else if 0 < length args then
           (case arg0 args of Inl e \<Rightarrow> (Inl e, self) | Inr a \<Rightarrow> (Inr a, self))
         else logged_call func K tic toc args kw self)
      else logged_call func K tic toc args kw self)"

text \<open>A sequence of wrapped calls on one instance, the caller going on after an exception.\<close>

record 'b call =
  call_func :: "'b func"
  call_tic :: real
  call_toc :: real
  call_args :: "pyval list"
  call_kwargs :: kwargs

definition do_call :: "class_state \<Rightarrow> 'b call \<Rightarrow> 'b communicator \<Rightarrow> (error + pyval) \<times> 'b communicator" where
  "do_call K c self =
     logging_wrapper (call_func c) K (call_tic c) (call_toc c) (call_args c) (call_kwargs c) self"

fun run_calls :: "class_state \<Rightarrow> 'b call list \<Rightarrow> 'b communicator \<Rightarrow> 'b communicator" where
  "run_calls K [] self = self"
| "run_calls K (c # cs) self = run_calls K cs (snd (do_call K c self))"


section \<open>Inputs for the statements\<close>

text \<open>
  A call that moves \<open>k\<close> elements and is not batched: either a collective other than
  \<^verbatim>\<open>barrier\<close> and \<^verbatim>\<open>scatter\<close> whose first positional argument is a tensor of \<open>k\<close>
  elements, with no true \<^verbatim>\<open>batched\<close> flag; or a \<^verbatim>\<open>scatter\<close> of a list of tensors,
  the first of \<open>m\<close> elements, that sends all but one of them, \<open>k\<close> elements in all.
\<close>

definition moves :: "int \<Rightarrow> 'b call \<Rightarrow> bool" where
  "moves k c =
     (case call_args c of
        VTensor sh d # rest \<Rightarrow>
          func_name (call_func c) \<noteq> ''barrier'' \<and> func_name (call_func c) \<noteq> ''scatter''
          \<and> batched (call_kwargs c) = Inr False \<and> int (prod_list sh) = k
      | VList (VTensor sh d # ts) # rest \<Rightarrow>
          func_name (call_func c) = ''scatter'' \<and> int (prod_list sh) * int (length ts) = k
      | _ \<Rightarrow> False)"

text \<open>
  A transport that returns the value \<open>v\<close> and counts how often it was invoked, an
  instance of a subclass with 8 bytes per element and counters at zero, and the state
  of the classes after that subclass was made verbose.
\<close>

definition counting :: "string \<Rightarrow> pyval \<Rightarrow> nat func" where
  "counting name v = \<lparr>func_name = name, func_body = (\<lambda>args kw n. (Inr v, Suc n))\<rparr>"

definition party :: "int \<Rightarrow> nat communicator" where
  "party w =
     \<lparr>cls_of = [''DistributedCommunicator''], world_size = w, BYTES_PER_ELEMENT = 8,
      comm_rounds = 0, comm_bytes = 0, comm_time = 0, attrs = Map.empty, backend = 0\<rparr>"

definition verbose_classes :: class_state where
  "verbose_classes = snd (set_verbosity [''DistributedCommunicator''] (VBool True) initial_classes)"

definition plain_call :: "string \<Rightarrow> pyval list \<Rightarrow> nat call" where
  "plain_call name args =
     \<lparr>call_func = counting name VNone, call_tic = 0, call_toc = 1, call_args = args,
      call_kwargs = Map.empty\<rparr>"

text \<open>A resolver that knows two device classes, and an instance with one generator.\<close>

definition known_devices :: "string \<Rightarrow> error + device" where
  "known_devices name =
     (if name = ''cpu'' \<or> name = ''cuda'' then Inr (Device name None)
      else Inl (RuntimeError ''Expected a device type at start of device string''))"

definition provisioned :: "nat communicator" where
  "provisioned = (party 2)\<lparr>attrs := [''g0'' \<mapsto> VGenerator 11]\<rparr>"


section \<open>Auxiliary facts\<close>

lemma and_then_Inr_iff: "and_then m f = Inr y \<longleftrightarrow> (\<exists>x. m = Inr x \<and> f x = Inr y)"
  by (cases m) auto

lemma nelement_nonneg: "nelement x = Inr n \<Longrightarrow> 0 \<le> n"
  by (cases x) auto

lemma sum_nelement_nonneg: "sum_nelement xs = Inr n \<Longrightarrow> 0 \<le> n"
  by (induction xs arbitrary: n) (auto simp: and_then_Inr_iff dest: nelement_nonneg)

lemma getitem0_len: "getitem0 a = Inr x \<Longrightarrow> py_len a = Inr l \<Longrightarrow> 1 \<le> l"
  by (induction a rule: getitem0.induct) (auto split: if_splits)

lemma scatter_count_nonneg:
  assumes "getitem0 a = Inr x" and "nelement x = Inr n" and "py_len a = Inr l"
  shows "0 \<le> n * (l - 1)"
proof -
  have "0 \<le> n" using assms(2) by (rule nelement_nonneg)
  moreover have "0 \<le> l - 1" using getitem0_len [OF assms(1) assms(3)] by simp
  ultimately show ?thesis by simp
qed

lemma call_log_communication_Inr:
  "call_log_communication ns s = Inr s1 \<longleftrightarrow> (\<exists>n. ns = [n] \<and> s1 = log_communication n s)"
  by (induction ns s rule: call_log_communication.induct) auto

lemma log_stats_Inr:
  assumes "log_stats name args kw s = Inr s1"
  shows "\<exists>n. 0 \<le> n \<and> s1 = log_communication n s"
proof (cases "name = ''barrier''")
  case True
  with assms show ?thesis by (simp add: log_stats_def)
next
  case nb: False
  show ?thesis
  proof (cases "name = ''scatter''")
    case True
    with assms obtain a x n l where "getitem0 a = Inr x" "nelement x = Inr n" "py_len a = Inr l"
      and "s1 = log_communication (n * (l - 1)) s"
      by (auto simp: log_stats_def and_then_Inr_iff)
    then show ?thesis using scatter_count_nonneg by blast
  next
    case False
    with nb assms show ?thesis
      by (auto simp: log_stats_def and_then_Inr_iff
          split: if_splits dest: nelement_nonneg sum_nelement_nonneg)
  qed
qed

lemma log_stats_barrier: "log_stats ''barrier'' args kw s = Inl TypeError"
  by (simp add: log_stats_def)

lemma log_stats_plain:
  assumes "name \<noteq> ''barrier''" and "name \<noteq> ''scatter''" and "batched kw = Inr False"
  shows "log_stats name (VTensor sh d # rest) kw s = Inr (log_communication (int (prod_list sh)) s)"
  using assms by (simp add: log_stats_def)

lemma log_stats_scatter:
  "log_stats ''scatter'' (VList (VTensor sh d # ts) # rest) kw s =
     Inr (log_communication (int (prod_list sh) * int (length ts)) s)"
  by (simp add: log_stats_def)

lemma str_int_0: "str_int 0 = ''0''" by (simp add: str_int_def str_nat.simps)
lemma str_int_1: "str_int 1 = ''1''" by (simp add: str_int_def str_nat.simps)

lemma verbose_classes_on: "is_verbose [''DistributedCommunicator''] verbose_classes"
  by (simp add: verbose_classes_def initial_classes_def)

lemma wrapper_many_parties:
  "2 \<le> world_size s \<Longrightarrow> logging_wrapper f K tic toc args kw s = logged_call f K tic toc args kw s"
  by (simp add: logging_wrapper_def)

text \<open>What a wrapped call leaves of the instance.\<close>

lemma logged_call_frame:
  "cls_of (snd (logged_call f K tic toc args kw s)) = cls_of s
   \<and> world_size (snd (logged_call f K tic toc args kw s)) = world_size s
   \<and> BYTES_PER_ELEMENT (snd (logged_call f K tic toc args kw s)) = BYTES_PER_ELEMENT s
   \<and> attrs (snd (logged_call f K tic toc args kw s)) = attrs s"
  by (auto simp: logged_call_def log_communication_def log_communication_time_def
      split: sum.splits prod.splits dest!: log_stats_Inr)

lemma logging_wrapper_frame:
  "cls_of (snd (logging_wrapper f K tic toc args kw s)) = cls_of s
   \<and> world_size (snd (logging_wrapper f K tic toc args kw s)) = world_size s
   \<and> BYTES_PER_ELEMENT (snd (logging_wrapper f K tic toc args kw s)) = BYTES_PER_ELEMENT s
   \<and> attrs (snd (logging_wrapper f K tic toc args kw s)) = attrs s"
  by (simp add: logging_wrapper_def logged_call_frame split: sum.splits)

lemma logged_call_counters_verbose:
  assumes "is_verbose (cls_of s) K" and "log_stats (func_name f) args kw s = Inr (log_communication n s)"
  shows "comm_rounds (snd (logged_call f K tic toc args kw s)) = comm_rounds s + 1
     \<and> comm_bytes (snd (logged_call f K tic toc args kw s)) = comm_bytes s + n * BYTES_PER_ELEMENT s"
  using assms
  by (auto simp: logged_call_def log_communication_def log_communication_time_def
      split: sum.splits prod.splits)

lemma logged_call_mono:
  assumes "0 \<le> BYTES_PER_ELEMENT s" and "tic \<le> toc"
  shows "comm_rounds s \<le> comm_rounds (snd (logged_call f K tic toc args kw s))
     \<and> comm_bytes s \<le> comm_bytes (snd (logged_call f K tic toc args kw s))
     \<and> comm_time s \<le> comm_time (snd (logged_call f K tic toc args kw s))"
  using assms
  by (auto simp: logged_call_def log_communication_def log_communication_time_def
      split: sum.splits prod.splits dest!: log_stats_Inr)

lemma logging_wrapper_mono:
  assumes "0 \<le> BYTES_PER_ELEMENT s" and "tic \<le> toc"
  shows "comm_rounds s \<le> comm_rounds (snd (logging_wrapper f K tic toc args kw s))
     \<and> comm_bytes s \<le> comm_bytes (snd (logging_wrapper f K tic toc args kw s))
     \<and> comm_time s \<le> comm_time (snd (logging_wrapper f K tic toc args kw s))"
  using assms by (simp add: logging_wrapper_def logged_call_mono split: sum.splits)


lemma moves_log_stats:
  assumes "moves k c"
  shows "log_stats (func_name (call_func c)) (call_args c) (call_kwargs c) s = Inr (log_communication k s)"
proof (cases "call_args c")
  case Nil
  with assms show ?thesis by (simp add: moves_def)
next
  case (Cons a rest)
  show ?thesis
  proof (cases a)
    case (VTensor sh d)
    with Cons assms show ?thesis by (simp add: moves_def log_stats_plain)
  next
    case (VList xs)
    with Cons assms obtain sh d ts where "xs = VTensor sh d # ts"
      by (auto simp: moves_def split: list.splits pyval.splits)
    with VList Cons assms show ?thesis by (auto simp: moves_def log_stats_scatter)
  qed (use Cons assms in \<open>simp_all add: moves_def\<close>)
qed

lemma do_call_frame:
  "cls_of (snd (do_call K c s)) = cls_of s \<and> world_size (snd (do_call K c s)) = world_size s
   \<and> BYTES_PER_ELEMENT (snd (do_call K c s)) = BYTES_PER_ELEMENT s"
  by (simp add: do_call_def logging_wrapper_frame)

lemma do_call_moves:
  assumes "is_verbose (cls_of s) K" and "2 \<le> world_size s" and "moves k c"
  shows "comm_rounds (snd (do_call K c s)) = comm_rounds s + 1
     \<and> comm_bytes (snd (do_call K c s)) = comm_bytes s + k * BYTES_PER_ELEMENT s"
  using logged_call_counters_verbose [OF assms(1) moves_log_stats [OF assms(3)]] assms(2)
  by (simp add: do_call_def wrapper_many_parties)

lemma run_calls_counters:
  assumes "is_verbose (cls_of s) K" and "2 \<le> world_size s" and "list_all (moves k) cs"
  shows "comm_rounds (run_calls K cs s) = comm_rounds s + int (length cs)
     \<and> comm_bytes (run_calls K cs s) = comm_bytes s + int (length cs) * k * BYTES_PER_ELEMENT s"
  using assms
proof (induction cs arbitrary: s)
  case Nil
  then show ?case by simp
next
  case (Cons c cs)
  let ?s = "snd (do_call K c s)"
  have step: "comm_rounds ?s = comm_rounds s + 1 \<and> comm_bytes ?s = comm_bytes s + k * BYTES_PER_ELEMENT s"
    using Cons.prems by (intro do_call_moves) simp_all
  have "is_verbose (cls_of ?s) K" and "2 \<le> world_size ?s" and "list_all (moves k) cs"
    using Cons.prems by (simp_all add: do_call_frame)
  from Cons.IH [OF this] step show ?case
    by (simp add: do_call_frame algebra_simps)
qed

lemma run_calls_mono:
  assumes "0 \<le> BYTES_PER_ELEMENT s" and "list_all (\<lambda>c. call_tic c \<le> call_toc c) cs"
  shows "comm_rounds s \<le> comm_rounds (run_calls K cs s)
     \<and> comm_bytes s \<le> comm_bytes (run_calls K cs s)
     \<and> comm_time s \<le> comm_time (run_calls K cs s)"
  using assms
proof (induction cs arbitrary: s)
  case Nil
  then show ?case by simp
next
  case (Cons c cs)
  let ?s = "snd (do_call K c s)"
  have step: "comm_rounds s \<le> comm_rounds ?s \<and> comm_bytes s \<le> comm_bytes ?s \<and> comm_time s \<le> comm_time ?s"
    unfolding do_call_def using Cons.prems by (intro logging_wrapper_mono) simp_all
  have "0 \<le> BYTES_PER_ELEMENT ?s" and "list_all (\<lambda>c. call_tic c \<le> call_toc c) cs"
    using Cons.prems by (simp_all add: do_call_frame)
  from Cons.IH [OF this] step show ?case by auto
qed

lemma single_party_gather:
  assumes "world_size s < 2" and "func_name f \<in> {''gather'', ''all_gather''}"
  shows "logging_wrapper f K tic toc (x # rest) kw s = (Inr (VList [x]), s)"
  using assms by (simp add: logging_wrapper_def)

lemma single_party_payload:
  assumes "world_size s < 2" and "func_name f \<notin> {''gather'', ''all_gather''}"
  shows "logging_wrapper f K tic toc (x # rest) kw s = (Inr x, s)"
  using assms by (simp add: logging_wrapper_def)

lemma single_party_no_payload_quiet:
  assumes "world_size s < 2" and "func_name f \<notin> {''gather'', ''all_gather''}"
    and "\<not> is_verbose (cls_of s) K"
  shows "logging_wrapper f K tic toc [] kw s =
     (fst (func_body f [] kw (backend s)), s\<lparr>backend := snd (func_body f [] kw (backend s))\<rparr>)"
  using assms by (simp add: logging_wrapper_def logged_call_def split: prod.splits)

lemma barrier_verbose_general:
  assumes "2 \<le> world_size s \<or> args = []" and "func_name f = ''barrier''" and "is_verbose (cls_of s) K"
  shows "logging_wrapper f K tic toc args kw s = (Inl TypeError, s)"
  using assms by (auto simp: logging_wrapper_def logged_call_def log_stats_barrier)

lemma result_independent_of_verbosity:
  assumes "2 \<le> world_size s" and "log_stats (func_name f) args kw s = Inr s1"
  shows "fst (logging_wrapper f K tic toc args kw s) = fst (logging_wrapper f K' tic' toc' args kw s)"
proof -
  obtain n where "s1 = log_communication n s" using log_stats_Inr [OF assms(2)] by blast
  with assms show ?thesis
    by (simp add: logging_wrapper_def logged_call_def log_communication_def split: sum.splits prod.splits)
qed

lemma get_generator_unresolved:
  "resolve_device td dev = Inl e \<Longrightarrow> get_generator td self idx dev = Inl e"
  by (simp add: get_generator_def)

lemma is_verbose_unset_prefix:
  assumes "list_all (\<lambda>c. sub_verbosity K c = None) pre"
  shows "is_verbose (pre @ []) (K\<lparr>base_verbosity := b\<rparr>) = b"
  using assms by (induction pre) auto

lemma is_verbose_unset_prefix_sub:
  assumes "list_all (\<lambda>p. sub_verbosity K p = None) pre"
  shows "is_verbose (pre @ c # cs) (K\<lparr>sub_verbosity := (sub_verbosity K)(c \<mapsto> b)\<rparr>) = b"
  using assms by (induction pre) auto

lemma is_verbose_other_class:
  assumes "c \<notin> set d"
  shows "is_verbose d (K\<lparr>sub_verbosity := (sub_verbosity K)(c \<mapsto> b)\<rparr>) = is_verbose d K"
  using assms by (induction d) (auto split: option.splits)


section \<open>The claims\<close>


text \<open>
  Claim C1 says that, with verbosity enabled and at least two parties, a wrapped call
  of \<^verbatim>\<open>barrier\<close> records exactly one round and adds no bytes. The wrapper calls
  \<^verbatim>\<open>self._log_communication(0, 1)\<close>, two arguments for a method of one parameter:
  the call raises \<^verbatim>\<open>TypeError\<close>, no round is recorded and the transport is not
  invoked. Evaluated with two parties: the caller gets the exception and the instance is
  as it was, the round counter still 0.
\<close>

theorem barrier_verbose_raises:
  "logging_wrapper (counting ''barrier'' VNone) verbose_classes 0 1 [] Map.empty (party 2)
     = (Inl TypeError, party 2)"
  by (simp add: logging_wrapper_def logged_call_def log_stats_def counting_def party_def
      verbose_classes_def initial_classes_def)

text \<open>
  Claim C2 says that with fewer than two parties \<^verbatim>\<open>gather\<close> and \<^verbatim>\<open>all_gather\<close> return
  \<open>[x]\<close>, every other call with a payload returns the payload, the transport is not
  invoked for them, and a call without payload such as \<^verbatim>\<open>barrier\<close> still executes on
  the transport. The first three parts hold (\<open>single_party_gather\<close>,
  \<open>single_party_payload\<close>), and so does the last while verbosity is off
  (\<open>single_party_no_payload_quiet\<close>). With verbosity on, \<^verbatim>\<open>barrier\<close> falls through
  to the statistics branch and raises \<^verbatim>\<open>TypeError\<close> there
  (\<open>barrier_verbose_general\<close>): with one party,
  the verbose call fails and leaves the transport untouched, the quiet call runs it once.
\<close>

theorem single_party_barrier_verbose_raises:
  "logging_wrapper (counting ''barrier'' VNone) verbose_classes 0 1 [] Map.empty (party 1)
     = (Inl TypeError, party 1)
   \<and> logging_wrapper (counting ''barrier'' VNone) initial_classes 0 1 [] Map.empty (party 1)
     = (Inr VNone, (party 1)\<lparr>backend := 1\<rparr>)"
  by (simp add: logging_wrapper_def logged_call_def log_stats_def counting_def party_def
      verbose_classes_def initial_classes_def)

text \<open>
  Claim C3 says that with one party every collective still returns a result of its
  documented shape, and that \<^verbatim>\<open>scatter\<close> returns the caller's single value rather than
  a sequence. The shortcut wraps the argument in a list for \<^verbatim>\<open>gather\<close> and
  \<^verbatim>\<open>all_gather\<close> and returns \<^verbatim>\<open>args[0]\<close> for everything else, so \<^verbatim>\<open>scatter\<close>
  returns the whole scatter list: a one-element list where the transport would have
  returned the tensor.
\<close>

theorem single_party_scatter_returns_list:
  "fst (logging_wrapper (counting ''scatter'' (VTensor [2] [5, 6])) initial_classes 0 1
          [VList [VTensor [2] [5, 6]], VInt 0] Map.empty (party 1))
     = Inr (VList [VTensor [2] [5, 6]])"
  by (simp add: logging_wrapper_def logged_call_def log_stats_def counting_def party_def
      verbose_classes_def initial_classes_def)

text \<open>
  Claim C4 says that with at least two parties the result of a collective does not depend
  on the verbosity flag. It holds whenever the statistics of the call can be recorded
  (\<open>result_independent_of_verbosity\<close>). It fails for \<^verbatim>\<open>barrier\<close>, by the call of
  \<^verbatim>\<open>_log_communication\<close> with two arguments (\<open>barrier_verbose_general\<close>): two runs on the same instance with
  the same arguments, one verbose and one not, end in an exception and in the
  transport's result.
\<close>

theorem barrier_result_depends_on_verbosity:
  "fst (logging_wrapper (counting ''barrier'' VNone) verbose_classes 0 1 [] Map.empty (party 2))
     = Inl TypeError
   \<and> fst (logging_wrapper (counting ''barrier'' VNone) initial_classes 0 1 [] Map.empty (party 2))
     = Inr VNone"
  by (simp add: logging_wrapper_def logged_call_def log_stats_def counting_def party_def
      verbose_classes_def initial_classes_def)

text \<open>
  Claim C5: with verbosity enabled and at least two parties, starting from counters that
  were just reset, after \<open>N\<close> calls that are not batched and move \<open>k\<close> elements each
  (\<open>moves\<close>), the round counter is \<open>N\<close> and the byte counter is
  \<open>N * k * BYTES_PER_ELEMENT\<close>. The counters are updated before the transport runs, so
  this holds whether or not the transport raises.
\<close>

theorem counters_after_calls:
  assumes "is_verbose (cls_of self) K" and "2 \<le> world_size self" and "list_all (moves k) cs"
  shows "comm_rounds (run_calls K cs (reset_communication_stats self)) = int (length cs)
     \<and> comm_bytes (run_calls K cs (reset_communication_stats self))
         = int (length cs) * k * BYTES_PER_ELEMENT self"
  using run_calls_counters [of "reset_communication_stats self" K k cs] assms
  by (simp add: reset_communication_stats_def)

theorem counters_after_calls_witness:
  "is_verbose (cls_of (party 2)) verbose_classes \<and> 2 \<le> world_size (party 2)
   \<and> list_all (moves 3)
       [plain_call ''all_reduce'' [VTensor [3] [1, 2, 3]],
        plain_call ''broadcast'' [VTensor [3, 1] [4, 5, 6], VInt 0],
        plain_call ''scatter'' [VList [VTensor [3] [1, 2, 3], VTensor [3] [4, 5, 6]], VInt 0]]
   \<and> comm_rounds (run_calls verbose_classes
       [plain_call ''all_reduce'' [VTensor [3] [1, 2, 3]],
        plain_call ''broadcast'' [VTensor [3, 1] [4, 5, 6], VInt 0],
        plain_call ''scatter'' [VList [VTensor [3] [1, 2, 3], VTensor [3] [4, 5, 6]], VInt 0]]
       (reset_communication_stats (party 2))) = 3
   \<and> comm_bytes (run_calls verbose_classes
       [plain_call ''all_reduce'' [VTensor [3] [1, 2, 3]],
        plain_call ''broadcast'' [VTensor [3, 1] [4, 5, 6], VInt 0],
        plain_call ''scatter'' [VList [VTensor [3] [1, 2, 3], VTensor [3] [4, 5, 6]], VInt 0]]
       (reset_communication_stats (party 2))) = 72"
proof -
  have v: "is_verbose (cls_of (party 2)) verbose_classes"
    by (simp add: party_def verbose_classes_def initial_classes_def)
  have w: "2 \<le> world_size (party 2)"
    by (simp add: party_def)
  have m: "list_all (moves 3)
       [plain_call ''all_reduce'' [VTensor [3] [1, 2, 3]],
        plain_call ''broadcast'' [VTensor [3, 1] [4, 5, 6], VInt 0],
        plain_call ''scatter'' [VList [VTensor [3] [1, 2, 3], VTensor [3] [4, 5, 6]], VInt 0]]"
    by (simp add: moves_def plain_call_def counting_def batched_def)
  show ?thesis
    using v w m counters_after_calls [OF v w m]
    by (simp add: party_def verbose_classes_def initial_classes_def)
qed

text \<open>
  Claim C6: with verbosity enabled and at least two parties, a \<^verbatim>\<open>scatter\<close> whose list
  holds exactly \<open>world_size\<close> tensors of \<open>m\<close> elements each records one round and
  \<open>m * (world_size - 1)\<close> elements, that is \<open>m * (world_size - 1) * BYTES_PER_ELEMENT\<close>
  bytes. The witness is the case of four parties and ten elements: \<open>10 * 3\<close> elements.
\<close>

theorem scatter_logs_once:
  assumes "is_verbose (cls_of self) K" and "2 \<le> world_size self"
    and "func_name f = ''scatter''"
    and "int (length ts) = world_size self"
    and "list_all (\<lambda>t. nelement t = Inr m) ts"
  shows "comm_rounds (snd (logging_wrapper f K tic toc (VList ts # rest) kw self))
           = comm_rounds self + 1
     \<and> comm_bytes (snd (logging_wrapper f K tic toc (VList ts # rest) kw self))
           = comm_bytes self + m * (world_size self - 1) * BYTES_PER_ELEMENT self"
proof -
  from assms(2,4) obtain t ts' where ts: "ts = t # ts'"
    by (cases ts) auto
  with assms(5) have "nelement t = Inr m" by simp
  then obtain sh d where t: "t = VTensor sh d" and m: "m = int (prod_list sh)"
    by (cases t) auto
  have len: "int (length ts') = world_size self - 1"
    using assms(4) ts by simp
  have "log_stats (func_name f) (VList ts # rest) kw self
          = Inr (log_communication (m * (world_size self - 1)) self)"
    by (simp add: assms(3) ts t m len log_stats_scatter)
  from logged_call_counters_verbose [OF assms(1) this] assms(2) show ?thesis
    by (simp add: wrapper_many_parties)
qed

theorem scatter_logs_once_witness:
  "is_verbose (cls_of (party 4)) verbose_classes \<and> 2 \<le> world_size (party 4)
   \<and> func_name (counting ''scatter'' VNone) = ''scatter''
   \<and> int (length (replicate 4 (VTensor [10] []))) = world_size (party 4)
   \<and> list_all (\<lambda>t. nelement t = Inr 10) (replicate 4 (VTensor [10] []))
   \<and> comm_rounds (snd (logging_wrapper (counting ''scatter'' VNone) verbose_classes 0 1
        [VList (replicate 4 (VTensor [10] [])), VInt 0] Map.empty (party 4))) = 1
   \<and> comm_bytes (snd (logging_wrapper (counting ''scatter'' VNone) verbose_classes 0 1
        [VList (replicate 4 (VTensor [10] [])), VInt 0] Map.empty (party 4)))
        = 10 * 3 * BYTES_PER_ELEMENT (party 4)"
proof -
  have v: "is_verbose (cls_of (party 4)) verbose_classes"
    by (simp add: party_def verbose_classes_def initial_classes_def)
  have w: "2 \<le> world_size (party 4)"
    by (simp add: party_def)
  have n: "func_name (counting ''scatter'' VNone) = ''scatter''"
    by (simp add: counting_def)
  have l: "int (length (replicate 4 (VTensor [10] []))) = world_size (party 4)"
    by (simp add: party_def)
  have a: "list_all (\<lambda>t. nelement t = Inr 10) (replicate 4 (VTensor [10] []))"
    by (simp add: list_all_iff)
  show ?thesis
    using v w n l a scatter_logs_once [OF v w n l a, of 0 1 "[VInt 0]" Map.empty]
    by (simp add: party_def verbose_classes_def initial_classes_def)
qed

text \<open>
  Claim C7, \<^verbatim>\<open>get_generator\<close>: an omitted device resolves to the CPU device, so the
  call behaves as with any device argument that resolves to it; when the device resolves
  and the index is not 0 or 1 the call fails with the out-of-bounds \<^verbatim>\<open>RuntimeError\<close>;
  when the index is 0 or 1 and the attribute named after index and device class
  (\<^verbatim>\<open>g0\<close>, \<^verbatim>\<open>g1\<close>, \<^verbatim>\<open>g0_cuda\<close>, \<^verbatim>\<open>g1_cuda\<close>) is missing or
  \<^verbatim>\<open>None\<close>, it fails with the \<^verbatim>\<open>ValueError\<close> that names that generator; otherwise
  it returns the generator. (A device argument that \<^verbatim>\<open>torch.device\<close> rejects fails
  there, \<open>get_generator_unresolved\<close>.)
\<close>

theorem get_generator_contract:
  "resolve_device td None = Inr (Device ''cpu'' None)
   \<and> (td d = Inr (Device ''cpu'' None)
        \<longrightarrow> get_generator td self idx None = get_generator td self idx (Some d))
   \<and> (resolve_device td dev = Inr device \<and> idx \<notin> {0, 1}
        \<longrightarrow> get_generator td self idx dev
             = Inl (RuntimeError (''Generator idx '' @ str_int idx @ '' out of bounds.'')))
   \<and> (resolve_device td dev = Inr device \<and> idx \<in> {0, 1}
        \<and> (attrs self (generator_name idx device) = None
             \<or> attrs self (generator_name idx device) = Some VNone)
        \<longrightarrow> get_generator td self idx dev
             = Inl (ValueError (''Generator '' @ generator_name idx device
                      @ '' is not initialized, call curl.init() first'')))
   \<and> (resolve_device td dev = Inr device \<and> idx \<in> {0, 1}
        \<and> attrs self (generator_name idx device) = Some g \<and> g \<noteq> VNone
        \<longrightarrow> get_generator td self idx dev = Inr g)"
proof -
  have 1: "resolve_device td None = Inr (Device ''cpu'' None)"
    by (simp add: resolve_device_def)
  have 2: "get_generator td self idx None = get_generator td self idx (Some d)"
    if "td d = Inr (Device ''cpu'' None)"
    using that by (simp add: get_generator_def resolve_device_def)
  have 3: "get_generator td self idx dev
             = Inl (RuntimeError (''Generator idx '' @ str_int idx @ '' out of bounds.''))"
    if "resolve_device td dev = Inr device" and "idx \<notin> {0, 1}"
    using that by (simp add: get_generator_def)
  have 4: "get_generator td self idx dev
             = Inl (ValueError (''Generator '' @ generator_name idx device
                      @ '' is not initialized, call curl.init() first''))"
    if "resolve_device td dev = Inr device" and "idx \<in> {0, 1}"
      and "attrs self (generator_name idx device) = None
             \<or> attrs self (generator_name idx device) = Some VNone"
  proof -
    have "getattr_or_None self (generator_name idx device) = VNone"
      using that(3) by (auto simp: getattr_or_None_def)
    with that(1,2) show ?thesis by (simp add: get_generator_def)
  qed
  have 5: "get_generator td self idx dev = Inr g"
    if "resolve_device td dev = Inr device" and "idx \<in> {0, 1}"
      and "attrs self (generator_name idx device) = Some g" and "g \<noteq> VNone"
  proof -
    have "getattr_or_None self (generator_name idx device) = g"
      using that(3) by (simp add: getattr_or_None_def)
    with that(1,2,4) show ?thesis by (simp add: get_generator_def)
  qed
  from 1 2 3 4 5 show ?thesis by blast
qed

theorem get_generator_contract_witness:
  "known_devices ''cpu'' = Inr (Device ''cpu'' None)
   \<and> get_generator known_devices provisioned 0 None = Inr (VGenerator 11)
   \<and> get_generator known_devices provisioned 0 (Some ''cpu'') = Inr (VGenerator 11)
   \<and> get_generator known_devices provisioned 2 (Some ''cuda'')
        = Inl (RuntimeError ''Generator idx 2 out of bounds.'')
   \<and> get_generator known_devices provisioned 0 (Some ''cuda'')
        = Inl (ValueError ''Generator g0_cuda is not initialized, call curl.init() first'')
   \<and> get_generator known_devices provisioned 1 None
        = Inl (ValueError ''Generator g1 is not initialized, call curl.init() first'')"
proof -
  have r: "resolve_device known_devices (Some ''cuda'') = Inr (Device ''cuda'' None)"
    "resolve_device known_devices (None :: string option) = Inr (Device ''cpu'' None)"
    "known_devices ''cpu'' = Inr (Device ''cpu'' None)"
    by (simp_all add: resolve_device_def known_devices_def)
  have n: "generator_name 0 (Device ''cuda'' None) = ''g0_cuda''"
    "generator_name 0 (Device ''cpu'' None) = ''g0''"
    "generator_name 1 (Device ''cpu'' None) = ''g1''"
    by (simp_all add: generator_name_def str_int_0 str_int_1)
  have s: "str_int 2 = ''2''"
    by (simp add: str_int_def str_nat.simps)
  have a: "attrs provisioned ''g0_cuda'' = None" "attrs provisioned ''g1'' = None"
    "attrs provisioned ''g0'' = Some (VGenerator 11)"
    by (simp_all add: provisioned_def)
  have "get_generator known_devices provisioned 0 (Some ''cuda'')
        = Inl (ValueError ''Generator g0_cuda is not initialized, call curl.init() first'')"
    using get_generator_contract [of known_devices "''cpu''" provisioned 0 "Some ''cuda''"
        "Device ''cuda'' None" "VGenerator 11"]
    by (simp add: r n a)
  moreover have "get_generator known_devices provisioned 2 (Some ''cuda'')
        = Inl (RuntimeError ''Generator idx 2 out of bounds.'')"
    using get_generator_contract [of known_devices "''cpu''" provisioned 2 "Some ''cuda''"
        "Device ''cuda'' None" "VGenerator 11"]
    by (simp add: r s)
  moreover have "get_generator known_devices provisioned 0 None = Inr (VGenerator 11)
      \<and> get_generator known_devices provisioned 0 (Some ''cpu'') = Inr (VGenerator 11)"
    using get_generator_contract [of known_devices "''cpu''" provisioned 0 None
        "Device ''cpu'' None" "VGenerator 11"]
    by (auto simp: r n a)
  moreover have "get_generator known_devices provisioned 1 None
        = Inl (ValueError ''Generator g1 is not initialized, call curl.init() first'')"
    using get_generator_contract [of known_devices "''cpu''" provisioned 1 None
        "Device ''cpu'' None" "VGenerator 11"]
    by (auto simp: r n a)
  ultimately show ?thesis
    by (simp add: r)
qed

text \<open>
  Claim C8 says that a failure of the statistics or timing code never aborts the
  communication. The wrapper has no handler around that code; the evaluation further
  below shows a call that fails in it and never reaches the transport. What holds
  instead, with at least two parties: when verbosity is on and recording the statistics
  raises, that exception is what the caller gets and the instance, transport included,
  is untouched; when verbosity is off, or the statistics are recorded, the transport
  operation runs on the transport's state as it was and its outcome, result or
  exception, is what the caller gets.
\<close>

theorem stats_failure_outcome:
  assumes "2 \<le> world_size self"
  shows "(is_verbose (cls_of self) K \<and> log_stats (func_name f) args kw self = Inl e
           \<longrightarrow> logging_wrapper f K tic toc args kw self = (Inl e, self))
     \<and> ((\<not> is_verbose (cls_of self) K \<or> (\<exists>s1. log_stats (func_name f) args kw self = Inr s1))
           \<longrightarrow> fst (logging_wrapper f K tic toc args kw self)
                 = fst (func_body f args kw (backend self))
               \<and> backend (snd (logging_wrapper f K tic toc args kw self))
                 = snd (func_body f args kw (backend self)))"
proof -
  have w: "logging_wrapper f K tic toc args kw self = logged_call f K tic toc args kw self"
    using assms by (rule wrapper_many_parties)
  have 1: "logged_call f K tic toc args kw self = (Inl e, self)"
    if "is_verbose (cls_of self) K" and "log_stats (func_name f) args kw self = Inl e"
    using that by (simp add: logged_call_def)
  have 2: "fst (logged_call f K tic toc args kw self) = fst (func_body f args kw (backend self))
      \<and> backend (snd (logged_call f K tic toc args kw self))
          = snd (func_body f args kw (backend self))"
    if "\<not> is_verbose (cls_of self) K"
    using that by (simp add: logged_call_def split: prod.splits)
  have 3: "fst (logged_call f K tic toc args kw self) = fst (func_body f args kw (backend self))
      \<and> backend (snd (logged_call f K tic toc args kw self))
          = snd (func_body f args kw (backend self))"
    if v: "is_verbose (cls_of self) K" and l: "log_stats (func_name f) args kw self = Inr s1" for s1
  proof -
    obtain n where s1: "s1 = log_communication n self"
      using log_stats_Inr [OF l] by blast
    have b: "backend s1 = backend self"
      by (simp add: s1 log_communication_def)
    obtain r b' where body: "func_body f args kw (backend self) = (r, b')"
      by (cases "func_body f args kw (backend self)")
    show ?thesis
      by (cases r) (simp_all add: logged_call_def v l b body log_communication_time_def)
  qed
  from 1 2 3 show ?thesis
    unfolding w by blast
qed

theorem stats_failure_outcome_witness:
  "2 \<le> world_size (party 2) \<and> is_verbose (cls_of (party 2)) verbose_classes
   \<and> log_stats ''all_reduce'' [VList [VTensor [2] [1, 2]]] Map.empty (party 2) = Inl AttributeError
   \<and> logging_wrapper (counting ''all_reduce'' (VInt 7)) verbose_classes 0 1
        [VList [VTensor [2] [1, 2]]] Map.empty (party 2) = (Inl AttributeError, party 2)
   \<and> log_stats ''all_reduce'' [VTensor [2] [1, 2]] Map.empty (party 2)
        = Inr (log_communication 2 (party 2))
   \<and> fst (logging_wrapper (counting ''all_reduce'' (VInt 7)) verbose_classes 0 1
        [VTensor [2] [1, 2]] Map.empty (party 2)) = Inr (VInt 7)
   \<and> backend (snd (logging_wrapper (counting ''all_reduce'' (VInt 7)) verbose_classes 0 1
        [VTensor [2] [1, 2]] Map.empty (party 2))) = 1"
proof -
  have w: "2 \<le> world_size (party 2)"
    by (simp add: party_def)
  have v: "is_verbose (cls_of (party 2)) verbose_classes"
    by (simp add: party_def verbose_classes_def initial_classes_def)
  have n: "func_name (counting ''all_reduce'' (VInt 7)) = ''all_reduce''"
    "func_body (counting ''all_reduce'' (VInt 7)) = (\<lambda>args kw n. (Inr (VInt 7), Suc n))"
    by (simp_all add: counting_def)
  have l: "log_stats ''all_reduce'' [VList [VTensor [2] [1, 2]]] Map.empty (party 2) = Inl AttributeError"
    "log_stats ''all_reduce'' [VTensor [2] [1, 2]] Map.empty (party 2)
        = Inr (log_communication 2 (party 2))"
    by (simp_all add: log_stats_def batched_def)
  have b: "backend (party 2) = 0"
    by (simp add: party_def)
  show ?thesis
    using stats_failure_outcome [OF w, of verbose_classes "counting ''all_reduce'' (VInt 7)"
        "[VList [VTensor [2] [1, 2]]]" Map.empty AttributeError 0 1]
      stats_failure_outcome [OF w, of verbose_classes "counting ''all_reduce'' (VInt 7)"
        "[VTensor [2] [1, 2]]" Map.empty AttributeError 0 1]
    by (simp add: w v n l b)
qed

text \<open>
  Against C8 as stated: with verbosity on and two parties, \<^verbatim>\<open>all_reduce\<close> of a list
  without the \<^verbatim>\<open>batched\<close> flag fails in \<^verbatim>\<open>args[0].nelement()\<close>, and \<^verbatim>\<open>barrier\<close>
  fails in the call of \<^verbatim>\<open>_log_communication\<close>; in both cases the transport, which
  would have returned a result, is not run.
\<close>

theorem stats_failure_aborts_call:
  "logging_wrapper (counting ''all_reduce'' (VInt 7)) verbose_classes 0 1
        [VList [VTensor [2] [1, 2]]] Map.empty (party 2) = (Inl AttributeError, party 2)
   \<and> func_body (counting ''all_reduce'' (VInt 7)) [VList [VTensor [2] [1, 2]]] Map.empty
        (backend (party 2)) = (Inr (VInt 7), 1)
   \<and> logging_wrapper (counting ''barrier'' VNone) verbose_classes 2 3 [] Map.empty (party 3)
        = (Inl TypeError, party 3)
   \<and> func_body (counting ''barrier'' VNone) [] Map.empty (backend (party 3)) = (Inr VNone, 1)"
  by (simp add: logging_wrapper_def logged_call_def log_stats_def batched_def counting_def
      party_def verbose_classes_def initial_classes_def)

text \<open>
  Claim C9: when the byte width is not negative and no measured duration is negative,
  the three counters never decrease, over one wrapped call and over any sequence of
  wrapped calls; and \<^verbatim>\<open>reset_communication_stats\<close> sets all three to zero. Element
  counts are never negative here: they are numbers of elements of tensors
  (\<open>log_stats_Inr\<close>).
\<close>

theorem counters_monotone_and_reset:
  assumes "0 \<le> BYTES_PER_ELEMENT self" and "list_all (\<lambda>c. call_tic c \<le> call_toc c) cs"
  shows "(tic \<le> toc \<longrightarrow>
            comm_rounds self \<le> comm_rounds (snd (logging_wrapper f K tic toc args kw self))
          \<and> comm_bytes self \<le> comm_bytes (snd (logging_wrapper f K tic toc args kw self))
          \<and> comm_time self \<le> comm_time (snd (logging_wrapper f K tic toc args kw self)))
     \<and> comm_rounds self \<le> comm_rounds (run_calls K cs self)
     \<and> comm_bytes self \<le> comm_bytes (run_calls K cs self)
     \<and> comm_time self \<le> comm_time (run_calls K cs self)
     \<and> comm_rounds (reset_communication_stats self) = 0
     \<and> comm_bytes (reset_communication_stats self) = 0
     \<and> comm_time (reset_communication_stats self) = 0"
  using logging_wrapper_mono [OF assms(1), of tic toc f K args kw] run_calls_mono [OF assms, of K]
  by (simp add: reset_communication_stats_def)

theorem counters_monotone_and_reset_witness:
  "0 \<le> BYTES_PER_ELEMENT (party 2)
   \<and> list_all (\<lambda>c. call_tic c \<le> call_toc c)
        [plain_call ''all_reduce'' [VTensor [3] [1, 2, 3]], plain_call ''barrier'' [],
         plain_call ''send'' [VTensor [2] [4, 5], VInt 1]]
   \<and> comm_rounds (run_calls verbose_classes
        [plain_call ''all_reduce'' [VTensor [3] [1, 2, 3]], plain_call ''barrier'' [],
         plain_call ''send'' [VTensor [2] [4, 5], VInt 1]] (party 2)) = 2
   \<and> comm_bytes (run_calls verbose_classes
        [plain_call ''all_reduce'' [VTensor [3] [1, 2, 3]], plain_call ''barrier'' [],
         plain_call ''send'' [VTensor [2] [4, 5], VInt 1]] (party 2)) = 40
   \<and> comm_time (run_calls verbose_classes
        [plain_call ''all_reduce'' [VTensor [3] [1, 2, 3]], plain_call ''barrier'' [],
         plain_call ''send'' [VTensor [2] [4, 5], VInt 1]] (party 2)) = 2
   \<and> comm_rounds (party 2) = 0 \<and> comm_bytes (party 2) = 0 \<and> comm_time (party 2) = 0
   \<and> comm_rounds (reset_communication_stats (run_calls verbose_classes
        [plain_call ''all_reduce'' [VTensor [3] [1, 2, 3]], plain_call ''barrier'' [],
         plain_call ''send'' [VTensor [2] [4, 5], VInt 1]] (party 2))) = 0"
proof -
  have b: "0 \<le> BYTES_PER_ELEMENT (party 2)"
    by (simp add: party_def)
  have t: "list_all (\<lambda>c. call_tic c \<le> call_toc c)
        [plain_call ''all_reduce'' [VTensor [3] [1, 2, 3]], plain_call ''barrier'' [],
         plain_call ''send'' [VTensor [2] [4, 5], VInt 1]]"
    by (simp add: plain_call_def)
  show ?thesis
    using b t counters_monotone_and_reset [OF b t, of 0 1 "counting ''barrier'' VNone"
        verbose_classes "[]" Map.empty]
    by (simp add: do_call_def logging_wrapper_def logged_call_def log_stats_def batched_def
        log_communication_def log_communication_time_def reset_communication_stats_def
        plain_call_def counting_def party_def verbose_classes_def initial_classes_def)
qed

text \<open>
  Claim C10 says that \<^verbatim>\<open>set_verbosity\<close> fails on a value that is not a boolean and
  leaves the flag as it was, and that for a boolean \<open>v\<close> it updates one flag shared by
  all communicators. The first part holds. For the second, the assignment goes through
  \<^verbatim>\<open>cls\<close> and writes the class the method was called on (see the evaluation
  further below). What holds: after the call
  \<^verbatim>\<open>is_verbose()\<close> returns \<open>v\<close> for that class, and for every class below it whose
  intermediate classes have no flag of their own; and when the method is called on a
  subclass, the answer for a class that does not inherit from it is what it was.
\<close>

theorem set_verbosity_contract:
  "((\<forall>b. v \<noteq> VBool b)
       \<longrightarrow> set_verbosity k v K = (Inl (AssertionError ''Verbosity must be a boolean value''), K))
   \<and> fst (set_verbosity k (VBool b) K) = Inr ()
   \<and> is_verbose k (snd (set_verbosity k (VBool b) K)) = b
   \<and> (list_all (\<lambda>p. sub_verbosity K p = None) pre
       \<longrightarrow> is_verbose (pre @ k) (snd (set_verbosity k (VBool b) K)) = b)
   \<and> (c \<notin> set d
       \<longrightarrow> is_verbose d (snd (set_verbosity (c # cs) (VBool b) K)) = is_verbose d K)"
proof -
  have 1: "set_verbosity k v K = (Inl (AssertionError ''Verbosity must be a boolean value''), K)"
    if "\<forall>b. v \<noteq> VBool b"
    using that by (cases k; cases v) auto
  have 2: "fst (set_verbosity k (VBool b) K) = Inr ()"
    by (cases k) auto
  have 4: "is_verbose (pre @ k) (snd (set_verbosity k (VBool b) K)) = b"
    if "list_all (\<lambda>p. sub_verbosity K p = None) pre" for pre
    using that is_verbose_unset_prefix [of K pre b] is_verbose_unset_prefix_sub [of K pre]
    by (cases k) auto
  have 3: "is_verbose k (snd (set_verbosity k (VBool b) K)) = b"
    using 4 [of "[]"] by simp
  have 5: "is_verbose d (snd (set_verbosity (c # cs) (VBool b) K)) = is_verbose d K"
    if "c \<notin> set d"
    using that by (simp add: is_verbose_other_class)
  from 1 2 3 4 5 show ?thesis by blast
qed

theorem set_verbosity_contract_witness:
  "(\<forall>b. VInt 1 \<noteq> VBool b)
   \<and> set_verbosity [''DistributedCommunicator''] (VInt 1) initial_classes
       = (Inl (AssertionError ''Verbosity must be a boolean value''), initial_classes)
   \<and> fst (set_verbosity [''DistributedCommunicator''] (VBool True) initial_classes) = Inr ()
   \<and> is_verbose [''DistributedCommunicator''] verbose_classes
   \<and> list_all (\<lambda>p. sub_verbosity initial_classes p = None) [''TracingCommunicator'']
   \<and> is_verbose [''TracingCommunicator'', ''DistributedCommunicator''] verbose_classes
   \<and> ''DistributedCommunicator'' \<notin> set [''InProcessCommunicator'']
   \<and> is_verbose [''InProcessCommunicator''] verbose_classes
        = is_verbose [''InProcessCommunicator''] initial_classes"
  using set_verbosity_contract [of "VInt 1" "[''DistributedCommunicator'']" initial_classes True
      "[''TracingCommunicator'']" "''DistributedCommunicator''" "[''InProcessCommunicator'']" "[]"]
  by (simp add: verbose_classes_def initial_classes_def)

text \<open>
  Against C10 as stated: from the initial state, \<^verbatim>\<open>set_verbosity(True)\<close> called on one
  subclass succeeds and makes that subclass verbose, while \<^verbatim>\<open>is_verbose()\<close> still
  returns \<^verbatim>\<open>False\<close> for a sibling class and for \<^verbatim>\<open>Communicator\<close> itself.
\<close>

theorem set_verbosity_not_class_wide:
  "fst (set_verbosity [''DistributedCommunicator''] (VBool True) initial_classes) = Inr ()
   \<and> is_verbose [''DistributedCommunicator'']
        (snd (set_verbosity [''DistributedCommunicator''] (VBool True) initial_classes))
   \<and> \<not> is_verbose [''InProcessCommunicator'']
        (snd (set_verbosity [''DistributedCommunicator''] (VBool True) initial_classes))
   \<and> \<not> is_verbose []
        (snd (set_verbosity [''DistributedCommunicator''] (VBool True) initial_classes))"
  by (simp add: initial_classes_def)

end
